theory Spec2Isabelle
  imports Main "HOL-Library.Word"
begin

section \<open>Python values and exceptions\<close>

text \<open>
  The values that reach \<^verbatim>\<open>dashapp_top.py\<close> from its collaborators (database
  columns, YAML configuration entries, the pathname of the URL component, the tick
  counter). Floating-point numbers are outside this embedding.
\<close>

type_synonym bytes = "8 word list"

datatype pyval =
    PyNone
  | PyBool bool
  | PyInt int
  | PyStr string
  | PyBytes bytes

text \<open>
  A raised exception. \<^verbatim>\<open>except Exception\<close> catches the instances of class
  \<^verbatim>\<open>Exception\<close> only; \<^verbatim>\<open>SystemExit\<close>, \<^verbatim>\<open>KeyboardInterrupt\<close> and
  \<^verbatim>\<open>GeneratorExit\<close> derive from \<^verbatim>\<open>BaseException\<close> directly and pass through.
  The string is the name of the class.
\<close>

datatype py_raised =
    ExceptionInstance string
  | BaseExceptionOnly string

fun is_Exception :: "py_raised \<Rightarrow> bool" where
  "is_Exception (ExceptionInstance _) = True"
| "is_Exception (BaseExceptionOnly _) = False"

text \<open>Truth value testing of \<^verbatim>\<open>if v:\<close>.\<close>

fun py_truthy :: "pyval \<Rightarrow> bool" where
  "py_truthy PyNone = False"
| "py_truthy (PyBool b) = b"
| "py_truthy (PyInt i) = (i \<noteq> 0)"
| "py_truthy (PyStr s) = (s \<noteq> [])"
| "py_truthy (PyBytes b) = (b \<noteq> [])"

text \<open>
  \<^verbatim>\<open>v * k\<close> for an \<^verbatim>\<open>int\<close> literal \<open>k\<close>: arithmetic on numbers (a \<^verbatim>\<open>bool\<close> is
  the integer 0 or 1), repetition on sequences (empty when \<open>k \<le> 0\<close>), \<^verbatim>\<open>TypeError\<close>
  on \<^verbatim>\<open>None\<close>.
\<close>

fun py_mul_int :: "pyval \<Rightarrow> int \<Rightarrow> py_raised + pyval" where
  "py_mul_int PyNone k = Inl (ExceptionInstance ''TypeError'')"
| "py_mul_int (PyBool b) k = Inr (PyInt ((if b then 1 else 0) * k))"
| "py_mul_int (PyInt i) k = Inr (PyInt (i * k))"
| "py_mul_int (PyStr s) k = Inr (PyStr (concat (replicate (nat k) s)))"
| "py_mul_int (PyBytes b) k = Inr (PyBytes (concat (replicate (nat k) b)))"

section \<open>The logger\<close>

text \<open>
  \<^verbatim>\<open>tools.logging_tools.logger\<close> is modelled by the list of the records it has been
  handed, oldest first. Both messages of this module are rendered from the exception in
  flight (\<^verbatim>\<open>f'Error; {traceback.format_exc()}'\<close> and \<^verbatim>\<open>logger.error(e)\<close>), so a
  record keeps the level and that exception.
\<close>

datatype log_level = WARNING | ERROR

type_synonym log_record = "log_level \<times> py_raised"

section \<open>The authentication gate\<close>

text \<open>
  An account row as \<^verbatim>\<open>DAO.query_account\<close> returns it: a mapping from column names
  to values. \<^verbatim>\<open>account['misc']\<close> raises \<^verbatim>\<open>KeyError\<close> on a missing column.
\<close>

type_synonym account = "string \<rightharpoonup> pyval"

definition getitem :: "account \<Rightarrow> string \<Rightarrow> py_raised + pyval" where
  "getitem account k =
     (case account k of
        None \<Rightarrow> Inl (ExceptionInstance ''KeyError'')
      | Some v \<Rightarrow> Inr v)"

text \<open>
  \<^verbatim>\<open>io.BytesIO(v).read()\<close>: the constructor takes a bytes-like object, or
  \<^verbatim>\<open>None\<close> for an empty buffer, and raises \<^verbatim>\<open>TypeError\<close> on anything else;
  reading a fresh buffer returns all of its bytes.
\<close>

fun BytesIO_read :: "pyval \<Rightarrow> py_raised + bytes" where
  "BytesIO_read (PyBytes b) = Inr b"
| "BytesIO_read PyNone = Inr []"
| "BytesIO_read _ = Inl (ExceptionInstance ''TypeError'')"

text \<open>The two statements \<^verbatim>\<open>b = io.BytesIO(account[k]); x = b.read()\<close>.\<close>

definition read_field :: "account \<Rightarrow> string \<Rightarrow> py_raised + bytes" where
  "read_field account k =
     (case getitem account k of
        Inl e \<Rightarrow> Inl e
      | Inr v \<Rightarrow> BytesIO_read v)"

text \<open>
  \<^verbatim>\<open>authorization_function(username, password)\<close>. The collaborators are parameters:
  \<open>query_account\<close> is \<^verbatim>\<open>DAO.query_account\<close> and \<open>is_correct_password\<close> is
  \<^verbatim>\<open>hash_tools.is_correct_password\<close>; either may raise, and both calls stand
  outside the \<^verbatim>\<open>try\<close> block. The result is the returned value or the exception that
  leaves the function, together with the log.
\<close>

definition authorization_function ::
  "(string \<Rightarrow> py_raised + account option) \<Rightarrow>
   (bytes \<Rightarrow> bytes \<Rightarrow> string \<Rightarrow> py_raised + bool) \<Rightarrow>
   string \<Rightarrow> string \<Rightarrow> log_record list \<Rightarrow> (py_raised + bool) \<times> log_record list" where
  "authorization_function query_account is_correct_password username password lg =
     (case query_account username of
        Inl e \<Rightarrow> (Inl e, lg)
      | Inr None \<Rightarrow> (Inr False, lg)
      | Inr (Some account) \<Rightarrow>
          (case (case read_field account ''misc'' of
                   Inl e \<Rightarrow> Inl e
                 | Inr salt \<Rightarrow>
                     (case read_field account ''password'' of
                        Inl e \<Rightarrow> Inl e
                      | Inr correct \<Rightarrow> Inr (salt, correct))) of
             Inl e \<Rightarrow>
               (if is_Exception e then (Inr False, lg @ [(WARNING, e)]) else (Inl e, lg))
           | Inr (salt, correct) \<Rightarrow>
               (case is_correct_password salt correct password of
                  Inl e \<Rightarrow> (Inl e, lg)
                | Inr ok \<Rightarrow> (if ok then (Inr True, lg) else (Inr False, lg)))))"

section \<open>The dashboard application object\<close>

text \<open>
  The components this module builds, as far as it sets their properties:
  \<^verbatim>\<open>dbc.NavbarSimple\<close> with its \<^verbatim>\<open>NavItem(NavLink(label, href))\<close> children, and
  the elements of \<^verbatim>\<open>app.layout\<close>.
\<close>

record NavbarSimple =
  children :: "(string \<times> string) list"
  brand :: "string list"
  brand_href :: "string option"
  color :: string
  className :: string

datatype component =
    Store string
  | Interval string pyval int
  | Location string bool
  | Div string "component list"

text \<open>The \<^verbatim>\<open>BasicAuth\<close> object, holding the name of its \<^verbatim>\<open>auth_func\<close>.\<close>

datatype BasicAuth = BasicAuth string

text \<open>
  The fields of \<^verbatim>\<open>DashAppTop\<close> (leading underscores dropped). \<open>'p\<close> is the type of
  page-provider objects.
\<close>

record 'p DashAppTop =
  DASH_HOST :: pyval
  DASH_PORT :: pyval
  SYSTEM_TIMER :: pyval
  auth :: "BasicAuth option"
  console_page :: 'p
  setup_page :: 'p
  schedule_page :: 'p
  db_browse_page :: 'p
  db_query_page :: 'p
  navbar_with_menu :: NavbarSimple
  navbar_simple :: NavbarSimple
  app_layout :: "component list"

subsection \<open>Configuration\<close>

text \<open>
  Modelled from the spec: \<^verbatim>\<open>YamlConfig.get\<close> of \<^verbatim>\<open>tools.yaml_tools\<close> is not part
  of the sources. The configuration is a mapping from dotted keys to values, and
  \<^verbatim>\<open>CONFIG.get(key, default)\<close> returns the default when the key is absent.
\<close>

type_synonym config = "string \<rightharpoonup> pyval"

definition CONFIG_get :: "config \<Rightarrow> string \<Rightarrow> pyval \<Rightarrow> pyval" where
  "CONFIG_get cfg key dflt = (case cfg key of None \<Rightarrow> dflt | Some v \<Rightarrow> v)"

subsection \<open>Building the layout\<close>

definition the_navbar_with_menu :: NavbarSimple where
  "the_navbar_with_menu =
     \<lparr> children =
         [(''Console'', ''/page_console''),
          (''Setup'', ''/page_setup''),
          (''Schedule'', ''/page_schedule''),
          (''DB'', ''/page_db_browser''),
          (''Query'', ''/page_db_query'')],
       brand =
         [''Bagfiles Capturer'',
          ''Robotics and Autonomous Systems Group, REF, RI, Queensland University of Technology''],
       brand_href = Some ''/page_console'',
       color = ''#cce6ff'',
       className = ''fs-4 text'' \<rparr>"

definition the_navbar_simple :: NavbarSimple where
  "the_navbar_simple =
     \<lparr> children = [],
       brand = [''Bagfiles Capturer''],
       brand_href = None,
       color = ''#99cccc'',
       className = ''fs-4 text'' \<rparr>"

text \<open>
  The attributes that \<^verbatim>\<open>_define_app\<close> assigns do not exist before it runs; the
  record holds blank values for them until then.
\<close>

definition unset_navbar :: NavbarSimple where
  "unset_navbar =
     \<lparr> children = [], brand = [], brand_href = None, color = [], className = [] \<rparr>"

text \<open>\<^verbatim>\<open>_define_app\<close>: the two navigation bars and the layout with the system timer.\<close>

definition define_app :: "'p DashAppTop \<Rightarrow> 'p DashAppTop" where
  "define_app self =
     self\<lparr> navbar_with_menu := the_navbar_with_menu,
           navbar_simple := the_navbar_simple,
           app_layout :=
             [Store ''dashapp_interval_store'',
              Interval ''system_interval'' (SYSTEM_TIMER self) 0,
              Location ''url'' False,
              Div ''nav_placeholder'' [],
              Div ''page_content'' []] \<rparr>"

subsection \<open>Construction\<close>

text \<open>
  \<^verbatim>\<open>DashAppTop.__init__\<close>. \<open>count_accounts\<close> is the outcome of
  \<^verbatim>\<open>DAO.count_accounts()\<close>, which is called only when the authentication flag is
  truthy. The page constructors are parameters: \<open>ConsolePage\<close> takes the console
  refresh interval, and each may raise. Any exception leaves the constructor.
\<close>

definition init_auth :: "config \<Rightarrow> py_raised + int \<Rightarrow> py_raised + BasicAuth option" where
  "init_auth cfg count_accounts =
     (if py_truthy (CONFIG_get cfg ''capturer.web.auth'' (PyBool False)) then
        (case count_accounts of
           Inl e \<Rightarrow> Inl e
         | Inr c \<Rightarrow> Inr (if c > 0 then Some (BasicAuth ''authorization_function'') else None))
      else Inr None)"

definition init ::
  "config \<Rightarrow> py_raised + int \<Rightarrow> (pyval \<Rightarrow> py_raised + 'p) \<Rightarrow>
   py_raised + 'p \<Rightarrow> py_raised + 'p \<Rightarrow> py_raised + 'p \<Rightarrow> py_raised + 'p \<Rightarrow>
   py_raised + 'p DashAppTop" where
  "init cfg count_accounts ConsolePage AdminSetupPage SetupPage DBTableBrowsePage DBQueryPage =
     (case py_mul_int (CONFIG_get cfg ''capturer.system.timer'' (PyInt 1)) 1000 of
        Inl e \<Rightarrow> Inl e
      | Inr timer \<Rightarrow>
     (case init_auth cfg count_accounts of
        Inl e \<Rightarrow> Inl e
      | Inr a \<Rightarrow>
     (case ConsolePage (CONFIG_get cfg ''capturer.console.refresh'' (PyInt 5)) of
        Inl e \<Rightarrow> Inl e
      | Inr p1 \<Rightarrow>
     (case AdminSetupPage of
        Inl e \<Rightarrow> Inl e
      | Inr p2 \<Rightarrow>
     (case SetupPage of
        Inl e \<Rightarrow> Inl e
      | Inr p3 \<Rightarrow>
     (case DBTableBrowsePage of
        Inl e \<Rightarrow> Inl e
      | Inr p4 \<Rightarrow>
     (case DBQueryPage of
        Inl e \<Rightarrow> Inl e
      | Inr p5 \<Rightarrow>
          Inr (define_app
            \<lparr> DASH_HOST = CONFIG_get cfg ''capturer.web.host'' PyNone,
              DASH_PORT = CONFIG_get cfg ''capturer.web.port'' PyNone,
              SYSTEM_TIMER = timer,
              auth = a,
              console_page = p1,
              setup_page = p2,
              schedule_page = p3,
              db_browse_page = p4,
              db_query_page = p5,
              navbar_with_menu = unset_navbar,
              navbar_simple = unset_navbar,
              app_layout = [] \<rparr>))))))))"

subsection \<open>The router\<close>

text \<open>
  The content returned to the \<^verbatim>\<open>page_content\<close> element: a string (the initial
  \<^verbatim>\<open>''\<close> and the fallback message) or what a provider's \<^verbatim>\<open>layout()\<close> returned.
\<close>

datatype 'c page_content = Str string | Layout 'c

text \<open>\<^verbatim>\<open>pathname == '...'\<close> against a string literal.\<close>

definition py_eq_str :: "pyval \<Rightarrow> string \<Rightarrow> bool" where
  "py_eq_str v s = (v = PyStr s)"

text \<open>
  The \<^verbatim>\<open>if\<close>/\<^verbatim>\<open>elif\<close> chain inside the \<^verbatim>\<open>try\<close> block: the new value of
  \<^verbatim>\<open>page_content\<close>, or the exception a provider raised. \<open>layout\<close> is the
  \<^verbatim>\<open>layout()\<close> method of the page providers.
\<close>

definition display_page_body ::
  "('p \<Rightarrow> py_raised + 'c) \<Rightarrow> 'p DashAppTop \<Rightarrow> pyval \<Rightarrow> py_raised + 'c page_content" where
  "display_page_body layout self pathname =
     (if py_eq_str pathname ''/page_console'' then map_sum id Layout (layout (console_page self))
      else if py_eq_str pathname ''/page_setup'' then map_sum id Layout (layout (setup_page self))
      else if py_eq_str pathname ''/page_schedule'' then map_sum id Layout (layout (schedule_page self))
      else if py_eq_str pathname ''/page_db_browser'' then map_sum id Layout (layout (db_browse_page self))
      else if py_eq_str pathname ''/page_db_query'' then map_sum id Layout (layout (db_query_page self))
      else if py_eq_str pathname ''/'' then map_sum id Layout (layout (console_page self))
      else Inr (Str ''404 Page Error! Please choose a link''))"

text \<open>
  The page registry of the specification's data model, a fixed table from URL path to
  page provider. It is not part of the code, which dispatches by the conditional chain
  above; the properties of the router are stated against this table.
\<close>

definition page_registry :: "'p DashAppTop \<Rightarrow> (string \<times> 'p) list" where
  "page_registry self =
     [(''/page_console'', console_page self),
      (''/page_setup'', setup_page self),
      (''/page_schedule'', schedule_page self),
      (''/page_db_browser'', db_browse_page self),
      (''/page_db_query'', db_query_page self),
      (''/'', console_page self)]"

text \<open>
  \<^verbatim>\<open>display_page(pathname)\<close>: the returned pair or the exception that leaves the
  callback, together with the log.
\<close>

definition display_page ::
  "('p \<Rightarrow> py_raised + 'c) \<Rightarrow> 'p DashAppTop \<Rightarrow> pyval \<Rightarrow> log_record list \<Rightarrow>
   (py_raised + 'c page_content \<times> NavbarSimple) \<times> log_record list" where
  "display_page layout self pathname lg =
     (let page_content = Str '''';
          nav_content = navbar_with_menu self
      in case display_page_body layout self pathname of
           Inr c \<Rightarrow> (Inr (c, nav_content), lg)
         | Inl e \<Rightarrow>
             (if is_Exception e then (Inr (page_content, nav_content), lg @ [(ERROR, e)])
              else (Inl e, lg)))"

subsection \<open>The system timer\<close>

text \<open>
  The members of \<^verbatim>\<open>model.CallbackTypes\<close>: \<^verbatim>\<open>TIMER\<close> is the one this module
  names, the others are kept by name.
\<close>

datatype CallbackTypes = TIMER | OtherCallbackType string

text \<open>
  \<^verbatim>\<open>dash_system_timer(n, pathname)\<close>. The registry \<^verbatim>\<open>model.CALLBACK_MANAGER\<close> is
  modelled by the list of the events fired to it, oldest first; \<open>fire_event\<close> tells
  whether the call \<^verbatim>\<open>fire_event(t)\<close> returns (\<open>None\<close>) or raises. The result is the
  1-tuple \<^verbatim>\<open>(n,)\<close> as a one-element list.
\<close>

definition dash_system_timer ::
  "(CallbackTypes \<Rightarrow> py_raised option) \<Rightarrow> pyval \<Rightarrow> pyval \<Rightarrow> CallbackTypes list \<Rightarrow>
   (py_raised + pyval list) \<times> CallbackTypes list" where
  "dash_system_timer fire_event n pathname fired =
     (case fire_event TIMER of
        Some e \<Rightarrow> (Inl e, fired @ [TIMER])
      | None \<Rightarrow> (Inr [n], fired @ [TIMER]))"

section \<open>Properties of the authentication gate\<close>

lemma getitem_raises_Exception: "getitem account k = Inl e \<Longrightarrow> is_Exception e"
  by (auto simp: getitem_def split: option.splits)

lemma BytesIO_read_raises_Exception: "BytesIO_read v = Inl e \<Longrightarrow> is_Exception e"
  by (cases v) auto

lemma read_field_raises_Exception: "read_field account k = Inl e \<Longrightarrow> is_Exception e"
  by (auto simp: read_field_def split: sum.splits
      dest: getitem_raises_Exception BytesIO_read_raises_Exception)

text \<open>
  C3: for every username and password, when the account lookup returns no account
  (\<^verbatim>\<open>None\<close>), \<open>authorization_function\<close> returns \<^verbatim>\<open>False\<close>; nothing is logged.
\<close>

theorem authorization_no_account:
  assumes "query_account username = Inr None"
  shows "authorization_function query_account is_correct_password username password lg
           = (Inr False, lg)"
  using assms by (simp add: authorization_function_def)

theorem authorization_no_account_witness:
  "(\<lambda>u. Inr None) ''alice'' = (Inr None :: py_raised + account option) \<and>
   authorization_function (\<lambda>u. Inr None) (\<lambda>s c p. Inr True) ''alice'' ''secret'' []
     = (Inr False, [])"
  using authorization_no_account
    [of "\<lambda>u. Inr None" "''alice''" "\<lambda>s c p. Inr True" "''secret''" "[]"]
  by simp

text \<open>
  C1: for every username and password such that the account lookup returns an account
  and both stored credential fields parse as byte buffers, \<open>authorization_function\<close>
  returns \<^verbatim>\<open>True\<close> if and only if \<^verbatim>\<open>is_correct_password\<close> returns
  \<^verbatim>\<open>True\<close> for the stored salt, the stored hash and the supplied password.
\<close>

theorem authorization_iff_is_correct_password:
  assumes "query_account username = Inr (Some account)"
    and "read_field account ''misc'' = Inr salt"
    and "read_field account ''password'' = Inr correct"
  shows "fst (authorization_function query_account is_correct_password username password lg)
           = Inr True
         \<longleftrightarrow> is_correct_password salt correct password = Inr True"
proof (cases "is_correct_password salt correct password")
  case (Inl e)
  with assms show ?thesis by (simp add: authorization_function_def)
next
  case (Inr ok)
  with assms show ?thesis by (simp add: authorization_function_def)
qed

theorem authorization_iff_is_correct_password_witness:
  "fst (authorization_function
          (\<lambda>u. Inr (Some [''misc'' \<mapsto> PyBytes [1, 2], ''password'' \<mapsto> PyBytes [3]]))
          (\<lambda>s c p. Inr (s = [1, 2] \<and> c = [3] \<and> p = ''secret''))
          ''alice'' ''secret'' []) = Inr True
   \<and> fst (authorization_function
          (\<lambda>u. Inr (Some [''misc'' \<mapsto> PyBytes [1, 2], ''password'' \<mapsto> PyBytes [3]]))
          (\<lambda>s c p. Inr (s = [1, 2] \<and> c = [3] \<and> p = ''secret''))
          ''alice'' ''guess'' []) \<noteq> Inr True"
proof -
  let ?acct = "[''misc'' \<mapsto> PyBytes [1, 2], ''password'' \<mapsto> PyBytes [3]] :: account"
  let ?q = "(\<lambda>u. Inr (Some ?acct)) :: string \<Rightarrow> py_raised + account option"
  let ?icp = "(\<lambda>s c p. Inr (s = [1, 2] \<and> c = [3] \<and> p = ''secret''))
                :: bytes \<Rightarrow> bytes \<Rightarrow> string \<Rightarrow> py_raised + bool"
  have s: "read_field ?acct ''misc'' = Inr [1, 2]"
    by (simp add: read_field_def getitem_def)
  have c: "read_field ?acct ''password'' = Inr [3]"
    by (simp add: read_field_def getitem_def)
  show ?thesis
    using s c
      authorization_iff_is_correct_password
        [where query_account = ?q and username = "''alice''" and account = ?acct
           and salt = "[1, 2]" and correct = "[3]" and is_correct_password = ?icp
           and password = "''secret''" and lg = "[]"]
      authorization_iff_is_correct_password
        [where query_account = ?q and username = "''alice''" and account = ?acct
           and salt = "[1, 2]" and correct = "[3]" and is_correct_password = ?icp
           and password = "''guess''" and lg = "[]"]
    by simp
qed

text \<open>
  C2: for every username and password such that the account lookup returns an account
  whose stored salt or hash field is malformed (reading it as a byte buffer raises),
  \<open>authorization_function\<close> logs one warning and returns \<^verbatim>\<open>False\<close>.
\<close>

theorem authorization_malformed_fails_closed:
  assumes "query_account username = Inr (Some account)"
    and "isl (read_field account ''misc'') \<or> isl (read_field account ''password'')"
  shows "\<exists>e. authorization_function query_account is_correct_password username password lg
               = (Inr False, lg @ [(WARNING, e)])"
proof (cases "read_field account ''misc''")
  case (Inl e)
  then have "is_Exception e" by (rule read_field_raises_Exception)
  with Inl assms(1) show ?thesis by (simp add: authorization_function_def)
next
  case salt: (Inr salt)
  with assms(2) obtain e where e: "read_field account ''password'' = Inl e"
    by (cases "read_field account ''password''") auto
  then have "is_Exception e" by (rule read_field_raises_Exception)
  with salt e assms(1) show ?thesis by (simp add: authorization_function_def)
qed

theorem authorization_malformed_fails_closed_witness:
  "isl (read_field [''misc'' \<mapsto> PyBytes [1, 2], ''password'' \<mapsto> PyStr ''abc''] ''password'')
   \<and> (\<exists>e. authorization_function
          (\<lambda>u. Inr (Some [''misc'' \<mapsto> PyBytes [1, 2], ''password'' \<mapsto> PyStr ''abc'']))
          (\<lambda>s c p. Inr True) ''alice'' ''secret'' []
        = (Inr False, [(WARNING, e)]))"
proof -
  let ?acct = "[''misc'' \<mapsto> PyBytes [1, 2], ''password'' \<mapsto> PyStr ''abc''] :: account"
  let ?q = "(\<lambda>u. Inr (Some ?acct)) :: string \<Rightarrow> py_raised + account option"
  have m: "isl (read_field ?acct ''password'')"
    by (simp add: read_field_def getitem_def)
  show ?thesis
    using m
      authorization_malformed_fails_closed
        [where query_account = ?q and username = "''alice''" and account = ?acct
           and is_correct_password = "\<lambda>s c p. Inr True" and password = "''secret''"
           and lg = "[]"]
    by simp
qed

section \<open>Properties of the router\<close>

text \<open>The conditional chain and the page registry agree on every pathname.\<close>

lemma display_page_body_registry:
  "display_page_body layout self pathname =
     (case pathname of
        PyStr path \<Rightarrow>
          (case map_of (page_registry self) path of
             Some p \<Rightarrow> map_sum id Layout (layout p)
           | None \<Rightarrow> Inr (Str ''404 Page Error! Please choose a link''))
      | _ \<Rightarrow> Inr (Str ''404 Page Error! Please choose a link''))"
  by (cases pathname) (simp_all add: display_page_body_def py_eq_str_def page_registry_def)

text \<open>The bar with the menu differs from the plain bar that \<^verbatim>\<open>_define_app\<close> also builds.\<close>

lemma define_app_navbars:
  "navbar_with_menu (define_app self) = the_navbar_with_menu"
  "navbar_simple (define_app self) = the_navbar_simple"
  "the_navbar_with_menu \<noteq> the_navbar_simple"
  by (simp_all add: define_app_def the_navbar_with_menu_def the_navbar_simple_def)

text \<open>
  C4: for every pathname, when the \<^verbatim>\<open>layout()\<close> of the matched page provider raises
  an exception (an instance of \<^verbatim>\<open>Exception\<close>, which is what the handler names),
  \<open>display_page\<close> does not propagate it: it logs the exception as an error and
  returns the initial empty content with the navigation bar computed before the
  \<^verbatim>\<open>try\<close> block.
\<close>

theorem display_page_catches_layout_exception:
  assumes "(path, p) \<in> set [(''/page_console'', console_page self),
                            (''/page_setup'', setup_page self),
                            (''/page_schedule'', schedule_page self),
                            (''/page_db_browser'', db_browse_page self),
                            (''/page_db_query'', db_query_page self),
                            (''/'', console_page self)]"
    and "layout p = Inl e"
    and "is_Exception e"
  shows "display_page layout self (PyStr path) lg
           = (Inr (Str '''', navbar_with_menu self), lg @ [(ERROR, e)])"
proof -
  from assms(1) have "map_of (page_registry self) path = Some p"
    by (auto simp: page_registry_def)
  with assms(2,3) show ?thesis
    by (simp add: display_page_def display_page_body_registry)
qed

theorem display_page_catches_layout_exception_witness:
  "display_page (\<lambda>p. if p = (2::nat) then Inl (ExceptionInstance ''ValueError'') else Inr p)
     (define_app \<lparr> DASH_HOST = PyNone, DASH_PORT = PyNone, SYSTEM_TIMER = PyInt 1000,
        auth = None, console_page = 1, setup_page = 2, schedule_page = 3,
        db_browse_page = 4, db_query_page = 5, navbar_with_menu = unset_navbar,
        navbar_simple = unset_navbar, app_layout = [] \<rparr>)
     (PyStr ''/page_setup'') []
   = (Inr (Str '''', the_navbar_with_menu), [(ERROR, ExceptionInstance ''ValueError'')])"
proof -
  let ?layout = "(\<lambda>p. if p = (2::nat) then Inl (ExceptionInstance ''ValueError'') else Inr p)
                   :: nat \<Rightarrow> py_raised + nat"
  let ?self = "define_app \<lparr> DASH_HOST = PyNone, DASH_PORT = PyNone, SYSTEM_TIMER = PyInt 1000,
        auth = None, console_page = 1::nat, setup_page = 2, schedule_page = 3,
        db_browse_page = 4, db_query_page = 5, navbar_with_menu = unset_navbar,
        navbar_simple = unset_navbar, app_layout = [] \<rparr>"
  have r: "(''/page_setup'', 2) \<in> set [(''/page_console'', console_page ?self),
                            (''/page_setup'', setup_page ?self),
                            (''/page_schedule'', schedule_page ?self),
                            (''/page_db_browser'', db_browse_page ?self),
                            (''/page_db_query'', db_query_page ?self),
                            (''/'', console_page ?self)]"
    by (simp add: define_app_def)
  have l: "?layout 2 = Inl (ExceptionInstance ''ValueError'')" by simp
  have x: "is_Exception (ExceptionInstance ''ValueError'')" by simp
  show ?thesis
    using display_page_catches_layout_exception
      [where layout = ?layout and self = ?self and path = "''/page_setup''" and p = 2
         and e = "ExceptionInstance ''ValueError''" and lg = "[]", OF r l x]
    by (simp add: define_app_navbars)
qed

text \<open>
  C5: for every recognized path (\<^verbatim>\<open>/page_console\<close>, \<^verbatim>\<open>/page_setup\<close>,
  \<^verbatim>\<open>/page_schedule\<close>, \<^verbatim>\<open>/page_db_browser\<close>, \<^verbatim>\<open>/page_db_query\<close>, \<^verbatim>\<open>/\<close>),
  \<open>display_page\<close> returns the content that the \<^verbatim>\<open>layout()\<close> of the corresponding
  page provider produced, together with the navigation bar with the menu; nothing is
  logged.
\<close>

theorem display_page_recognized:
  assumes "(path, p) \<in> set [(''/page_console'', console_page self),
                            (''/page_setup'', setup_page self),
                            (''/page_schedule'', schedule_page self),
                            (''/page_db_browser'', db_browse_page self),
                            (''/page_db_query'', db_query_page self),
                            (''/'', console_page self)]"
    and "layout p = Inr c"
  shows "display_page layout self (PyStr path) lg
           = (Inr (Layout c, navbar_with_menu self), lg)"
proof -
  from assms(1) have "map_of (page_registry self) path = Some p"
    by (auto simp: page_registry_def)
  with assms(2) show ?thesis
    by (simp add: display_page_def display_page_body_registry)
qed

theorem display_page_recognized_witness:
  "display_page (\<lambda>p. Inr (p * 10))
     (define_app \<lparr> DASH_HOST = PyNone, DASH_PORT = PyNone, SYSTEM_TIMER = PyInt 1000,
        auth = None, console_page = 1::nat, setup_page = 2, schedule_page = 3,
        db_browse_page = 4, db_query_page = 5, navbar_with_menu = unset_navbar,
        navbar_simple = unset_navbar, app_layout = [] \<rparr>)
     (PyStr ''/page_db_browser'') []
   = (Inr (Layout 40, the_navbar_with_menu), [])"
proof -
  let ?layout = "(\<lambda>p. Inr (p * 10)) :: nat \<Rightarrow> py_raised + nat"
  let ?self = "define_app \<lparr> DASH_HOST = PyNone, DASH_PORT = PyNone, SYSTEM_TIMER = PyInt 1000,
        auth = None, console_page = 1::nat, setup_page = 2, schedule_page = 3,
        db_browse_page = 4, db_query_page = 5, navbar_with_menu = unset_navbar,
        navbar_simple = unset_navbar, app_layout = [] \<rparr>"
  have r: "(''/page_db_browser'', 4) \<in> set [(''/page_console'', console_page ?self),
                            (''/page_setup'', setup_page ?self),
                            (''/page_schedule'', schedule_page ?self),
                            (''/page_db_browser'', db_browse_page ?self),
                            (''/page_db_query'', db_query_page ?self),
                            (''/'', console_page ?self)]"
    by (simp add: define_app_def)
  have l: "?layout 4 = Inr 40" by simp
  show ?thesis
    using display_page_recognized
      [where layout = ?layout and self = ?self and path = "''/page_db_browser''" and p = 4
         and c = 40 and lg = "[]", OF r l]
    by (simp add: define_app_navbars)
qed

text \<open>
  C6: routing the root path \<^verbatim>\<open>/\<close> gives the same result as routing
  \<^verbatim>\<open>/page_console\<close>, and both are the output of the console page provider's
  \<^verbatim>\<open>layout()\<close>: when that call returns content \<open>c\<close>, each of the two routings
  returns \<open>c\<close> with the navigation bar with the menu; when it raises an instance of
  \<^verbatim>\<open>Exception\<close>, each returns the empty content and logs the error.
\<close>

theorem display_page_root_is_console:
  "display_page layout self (PyStr ''/'') lg
     = display_page layout self (PyStr ''/page_console'') lg
   \<and> (\<forall>c. layout (console_page self) = Inr c \<longrightarrow>
          display_page layout self (PyStr ''/'') lg
            = (Inr (Layout c, navbar_with_menu self), lg) \<and>
          display_page layout self (PyStr ''/page_console'') lg
            = (Inr (Layout c, navbar_with_menu self), lg))
   \<and> (\<forall>e. layout (console_page self) = Inl e \<and> is_Exception e \<longrightarrow>
          display_page layout self (PyStr ''/'') lg
            = (Inr (Str '''', navbar_with_menu self), lg @ [(ERROR, e)]) \<and>
          display_page layout self (PyStr ''/page_console'') lg
            = (Inr (Str '''', navbar_with_menu self), lg @ [(ERROR, e)]))"
  by (simp add: display_page_def display_page_body_def py_eq_str_def)

theorem display_page_root_is_console_witness:
  "display_page (\<lambda>p. Inr (p * 10))
     (define_app \<lparr> DASH_HOST = PyNone, DASH_PORT = PyNone, SYSTEM_TIMER = PyInt 1000,
        auth = None, console_page = 1::nat, setup_page = 2, schedule_page = 3,
        db_browse_page = 4, db_query_page = 5, navbar_with_menu = unset_navbar,
        navbar_simple = unset_navbar, app_layout = [] \<rparr>)
     (PyStr ''/'') []
   = (Inr (Layout 10, the_navbar_with_menu), [])
   \<and> display_page (\<lambda>p. Inr (p * 10))
     (define_app \<lparr> DASH_HOST = PyNone, DASH_PORT = PyNone, SYSTEM_TIMER = PyInt 1000,
        auth = None, console_page = 1::nat, setup_page = 2, schedule_page = 3,
        db_browse_page = 4, db_query_page = 5, navbar_with_menu = unset_navbar,
        navbar_simple = unset_navbar, app_layout = [] \<rparr>)
     (PyStr ''/page_console'') []
   = (Inr (Layout 10, the_navbar_with_menu), [])
   \<and> display_page
     (\<lambda>p. if p = (1::nat) then Inl (ExceptionInstance ''ValueError'') else Inr p)
     (define_app \<lparr> DASH_HOST = PyNone, DASH_PORT = PyNone, SYSTEM_TIMER = PyInt 1000,
        auth = None, console_page = 1::nat, setup_page = 2, schedule_page = 3,
        db_browse_page = 4, db_query_page = 5, navbar_with_menu = unset_navbar,
        navbar_simple = unset_navbar, app_layout = [] \<rparr>)
     (PyStr ''/'') []
   = (Inr (Str '''', the_navbar_with_menu), [(ERROR, ExceptionInstance ''ValueError'')])"
proof -
  let ?ok = "(\<lambda>p. Inr (p * 10)) :: nat \<Rightarrow> py_raised + nat"
  let ?bad = "(\<lambda>p. if p = (1::nat) then Inl (ExceptionInstance ''ValueError'') else Inr p)
                :: nat \<Rightarrow> py_raised + nat"
  let ?self = "define_app \<lparr> DASH_HOST = PyNone, DASH_PORT = PyNone, SYSTEM_TIMER = PyInt 1000,
        auth = None, console_page = 1::nat, setup_page = 2, schedule_page = 3,
        db_browse_page = 4, db_query_page = 5, navbar_with_menu = unset_navbar,
        navbar_simple = unset_navbar, app_layout = [] \<rparr>"
  have ok: "?ok (console_page ?self) = Inr 10" by (simp add: define_app_def)
  have bad: "?bad (console_page ?self) = Inl (ExceptionInstance ''ValueError'')
               \<and> is_Exception (ExceptionInstance ''ValueError'')"
    by (simp add: define_app_def)
  have a: "display_page ?ok ?self (PyStr ''/'') [] = (Inr (Layout 10, navbar_with_menu ?self), [])
         \<and> display_page ?ok ?self (PyStr ''/page_console'') []
             = (Inr (Layout 10, navbar_with_menu ?self), [])"
    using ok display_page_root_is_console [where layout = ?ok and self = ?self and lg = "[]"]
    by blast
  have b: "display_page ?bad ?self (PyStr ''/'') []
             = (Inr (Str '''', navbar_with_menu ?self), [] @ [(ERROR, ExceptionInstance ''ValueError'')])"
    using bad display_page_root_is_console [where layout = ?bad and self = ?self and lg = "[]"]
    by blast
  show ?thesis
    using a b by (simp add: define_app_navbars)
qed

text \<open>
  C7: for every pathname that is not one of the recognized paths, \<open>display_page\<close>
  returns the fixed string \<^verbatim>\<open>404 Page Error! Please choose a link\<close> together with
  the navigation bar with the menu; nothing is logged.
\<close>

theorem display_page_unknown_path:
  assumes "pathname \<notin> {PyStr ''/page_console'', PyStr ''/page_setup'',
                        PyStr ''/page_schedule'', PyStr ''/page_db_browser'',
                        PyStr ''/page_db_query'', PyStr ''/''}"
  shows "display_page layout self pathname lg
           = (Inr (Str ''404 Page Error! Please choose a link'', navbar_with_menu self), lg)"
  using assms by (simp add: display_page_def display_page_body_def py_eq_str_def)

theorem display_page_unknown_path_witness:
  "display_page (\<lambda>p. Inr (p * 10))
     (define_app \<lparr> DASH_HOST = PyNone, DASH_PORT = PyNone, SYSTEM_TIMER = PyInt 1000,
        auth = None, console_page = 1::nat, setup_page = 2, schedule_page = 3,
        db_browse_page = 4, db_query_page = 5, navbar_with_menu = unset_navbar,
        navbar_simple = unset_navbar, app_layout = [] \<rparr>)
     (PyStr ''/page_missing'') []
   = (Inr (Str ''404 Page Error! Please choose a link'', the_navbar_with_menu), [])
   \<and> the_navbar_with_menu \<noteq> the_navbar_simple"
proof -
  let ?layout = "(\<lambda>p. Inr (p * 10)) :: nat \<Rightarrow> py_raised + nat"
  let ?self = "define_app \<lparr> DASH_HOST = PyNone, DASH_PORT = PyNone, SYSTEM_TIMER = PyInt 1000,
        auth = None, console_page = 1::nat, setup_page = 2, schedule_page = 3,
        db_browse_page = 4, db_query_page = 5, navbar_with_menu = unset_navbar,
        navbar_simple = unset_navbar, app_layout = [] \<rparr>"
  have u: "PyStr ''/page_missing'' \<notin> {PyStr ''/page_console'', PyStr ''/page_setup'',
                        PyStr ''/page_schedule'', PyStr ''/page_db_browser'',
                        PyStr ''/page_db_query'', PyStr ''/''}"
    by simp
  show ?thesis
    using display_page_unknown_path
      [where layout = ?layout and self = ?self and pathname = "PyStr ''/page_missing''"
         and lg = "[]", OF u]
    by (simp add: define_app_navbars)
qed

section \<open>Properties of the system timer\<close>

text \<open>
  C8: for every tick count \<open>n\<close> and every pathname, an invocation of
  \<open>dash_system_timer\<close> fires exactly one event to the registry, the event
  \<^verbatim>\<open>TIMER\<close>, and, the registry's \<^verbatim>\<open>fire_event\<close> returning, gives back the
  tick count unchanged as the 1-tuple \<^verbatim>\<open>(n,)\<close>.
\<close>

theorem dash_system_timer_fires_once:
  "snd (dash_system_timer fire_event n pathname fired) = fired @ [TIMER] \<and>
   (fire_event TIMER = None \<longrightarrow>
      fst (dash_system_timer fire_event n pathname fired) = Inr [n])"
  by (simp add: dash_system_timer_def split: option.splits)

theorem dash_system_timer_fires_once_witness:
  "dash_system_timer (\<lambda>t. None) (PyInt 7) (PyStr ''/page_console'') [TIMER, TIMER]
     = (Inr [PyInt 7], [TIMER, TIMER, TIMER])"
proof -
  have f: "(\<lambda>t. None :: py_raised option) TIMER = None" by simp
  show ?thesis
    using f dash_system_timer_fires_once
      [where fire_event = "\<lambda>t. None" and n = "PyInt 7"
         and pathname = "PyStr ''/page_console''" and fired = "[TIMER, TIMER]"]
    by (simp add: prod_eq_iff)
qed

section \<open>Properties of the construction\<close>

lemma init_fields:
  assumes "init cfg count_accounts ConsolePage AdminSetupPage SetupPage DBTableBrowsePage
             DBQueryPage = Inr app"
  shows "py_mul_int (CONFIG_get cfg ''capturer.system.timer'' (PyInt 1)) 1000
           = Inr (SYSTEM_TIMER app)"
    and "init_auth cfg count_accounts = Inr (auth app)"
    and "app_layout app =
           [Store ''dashapp_interval_store'',
            Interval ''system_interval'' (SYSTEM_TIMER app) 0,
            Location ''url'' False,
            Div ''nav_placeholder'' [],
            Div ''page_content'' []]"
  using assms
  by (auto simp: init_def define_app_def split: sum.splits)

text \<open>
  C9: the interval of the periodic timer is the configured value of
  \<^verbatim>\<open>capturer.system.timer\<close>, in seconds, multiplied by 1000 to give milliseconds,
  and 1000 ms (one second) when the key is absent. Stated for integer values of the
  key; the value is kept in \<^verbatim>\<open>SYSTEM_TIMER\<close> and given to the
  \<^verbatim>\<open>system_interval\<close> component of the layout.
\<close>

theorem system_timer_milliseconds:
  assumes "init cfg count_accounts ConsolePage AdminSetupPage SetupPage DBTableBrowsePage
             DBQueryPage = Inr app"
  shows "(cfg ''capturer.system.timer'' = None \<longrightarrow>
            SYSTEM_TIMER app = PyInt 1000 \<and>
            Interval ''system_interval'' (PyInt 1000) 0 \<in> set (app_layout app))
       \<and> (\<forall>seconds. cfg ''capturer.system.timer'' = Some (PyInt seconds) \<longrightarrow>
            SYSTEM_TIMER app = PyInt (seconds * 1000) \<and>
            Interval ''system_interval'' (PyInt (seconds * 1000)) 0 \<in> set (app_layout app))"
proof -
  note f = init_fields [OF assms]
  have absent: "SYSTEM_TIMER app = PyInt 1000" if "cfg ''capturer.system.timer'' = None"
    using f(1) that by (simp add: CONFIG_get_def)
  have present: "SYSTEM_TIMER app = PyInt (seconds * 1000)"
    if "cfg ''capturer.system.timer'' = Some (PyInt seconds)" for seconds
    using f(1) that by (simp add: CONFIG_get_def)
  have "Interval ''system_interval'' (SYSTEM_TIMER app) 0 \<in> set (app_layout app)"
    by (simp add: f(3))
  with absent present show ?thesis by metis
qed

theorem system_timer_milliseconds_witness:
  "(\<exists>app. init Map.empty (Inr 0) (\<lambda>r. Inr (1::nat)) (Inr 2) (Inr 3) (Inr 4) (Inr 5) = Inr app
      \<and> SYSTEM_TIMER app = PyInt 1000
      \<and> Interval ''system_interval'' (PyInt 1000) 0 \<in> set (app_layout app))
   \<and> (\<exists>app. init [''capturer.system.timer'' \<mapsto> PyInt 3] (Inr 0) (\<lambda>r. Inr (1::nat))
               (Inr 2) (Inr 3) (Inr 4) (Inr 5) = Inr app
      \<and> SYSTEM_TIMER app = PyInt 3000
      \<and> Interval ''system_interval'' (PyInt 3000) 0 \<in> set (app_layout app))"
proof -
  let ?cfg = "[''capturer.system.timer'' \<mapsto> PyInt 3] :: config"
  obtain a where a: "init Map.empty (Inr 0) (\<lambda>r. Inr (1::nat)) (Inr 2) (Inr 3) (Inr 4) (Inr 5)
                       = Inr a"
    by (simp add: init_def init_auth_def CONFIG_get_def)
  obtain b where b: "init ?cfg (Inr 0) (\<lambda>r. Inr (1::nat)) (Inr 2) (Inr 3) (Inr 4) (Inr 5)
                       = Inr b"
    by (simp add: init_def init_auth_def CONFIG_get_def)
  have "SYSTEM_TIMER a = PyInt 1000
          \<and> Interval ''system_interval'' (PyInt 1000) 0 \<in> set (app_layout a)"
    using system_timer_milliseconds [OF a] by simp
  moreover have "SYSTEM_TIMER b = PyInt 3000
          \<and> Interval ''system_interval'' (PyInt 3000) 0 \<in> set (app_layout b)"
    using system_timer_milliseconds [OF b] by simp
  ultimately show ?thesis using a b by blast
qed

text \<open>
  C10: after construction, \<^verbatim>\<open>BasicAuth\<close> is installed (with
  \<open>authorization_function\<close>) if and only if the authentication flag of the
  configuration is true and \<^verbatim>\<open>DAO.count_accounts()\<close> is greater than 0; with the
  flag true and no account, \<^verbatim>\<open>auth\<close> stays \<^verbatim>\<open>None\<close>.
\<close>

theorem auth_installed_iff:
  assumes "init cfg count_accounts ConsolePage AdminSetupPage SetupPage DBTableBrowsePage
             DBQueryPage = Inr app"
  shows "(auth app \<noteq> None \<longleftrightarrow>
            py_truthy (CONFIG_get cfg ''capturer.web.auth'' (PyBool False)) \<and>
            (\<exists>c. count_accounts = Inr c \<and> c > 0))
       \<and> (auth app \<noteq> None \<longrightarrow> auth app = Some (BasicAuth ''authorization_function''))
       \<and> (py_truthy (CONFIG_get cfg ''capturer.web.auth'' (PyBool False)) \<and>
            (\<exists>c. count_accounts = Inr c \<and> c \<le> 0) \<longrightarrow> auth app = None)"
proof (cases "py_truthy (CONFIG_get cfg ''capturer.web.auth'' (PyBool False))")
  case False
  with init_fields(2) [OF assms] have "auth app = None"
    by (simp add: init_auth_def)
  with False show ?thesis by simp
next
  case True
  with init_fields(2) [OF assms] obtain c where c: "count_accounts = Inr c"
    by (cases count_accounts) (simp_all add: init_auth_def)
  with True init_fields(2) [OF assms]
  have "auth app = (if c > 0 then Some (BasicAuth ''authorization_function'') else None)"
    by (simp add: init_auth_def)
  with True c show ?thesis by simp
qed

theorem auth_installed_iff_witness:
  "(\<exists>app. init [''capturer.web.auth'' \<mapsto> PyBool True] (Inr 2) (\<lambda>r. Inr (1::nat))
             (Inr 2) (Inr 3) (Inr 4) (Inr 5) = Inr app
      \<and> auth app = Some (BasicAuth ''authorization_function''))
   \<and> (\<exists>app. init [''capturer.web.auth'' \<mapsto> PyBool True] (Inr 0) (\<lambda>r. Inr (1::nat))
             (Inr 2) (Inr 3) (Inr 4) (Inr 5) = Inr app
      \<and> auth app = None)"
proof -
  let ?cfg = "[''capturer.web.auth'' \<mapsto> PyBool True] :: config"
  have t: "py_truthy (CONFIG_get ?cfg ''capturer.web.auth'' (PyBool False))"
    by (simp add: CONFIG_get_def)
  obtain a where a: "init ?cfg (Inr 2) (\<lambda>r. Inr (1::nat)) (Inr 2) (Inr 3) (Inr 4) (Inr 5)
                       = Inr a"
    by (simp add: init_def init_auth_def CONFIG_get_def)
  obtain b where b: "init ?cfg (Inr 0) (\<lambda>r. Inr (1::nat)) (Inr 2) (Inr 3) (Inr 4) (Inr 5)
                       = Inr b"
    by (simp add: init_def init_auth_def CONFIG_get_def)
  have "auth a = Some (BasicAuth ''authorization_function'')"
    using t auth_installed_iff [OF a] by simp
  moreover have "auth b = None"
    using t auth_installed_iff [OF b] by simp
  ultimately show ?thesis using a b by blast
qed

end
